theory Spec2Isabelle
  imports Main
begin

section \<open>Values of the Python program\<close>

text \<open>
  The integration talks to an IPMI-to-HTTP bridge and keeps what the bridge answers.
  Python checks none of the type annotations of the source at run time, so the values
  the code handles are modelled as what \<^verbatim>\<open>json()\<close> of the \<^verbatim>\<open>requests\<close>
  library can return: any JSON value. A JSON object is the parsed \<^verbatim>\<open>dict\<close>, written as
  an association list in insertion order and looked up with \<^const>\<open>map_of\<close>.
\<close>

datatype pyfloat = Finite int int | PosInf | NegInf | NaN

datatype json =
    JNull
  | JBool bool
  | JInt int
  | JFloat pyfloat
  | JStr string
  | JArr "json list"
  | JObj "(string \<times> json) list"

text \<open>
  The exceptions that occur. Every constructor stands for a subclass of Python's
  \<^verbatim>\<open>Exception\<close>: what the HTTP library and the JSON parser raise
  (\<open>RequestException\<close>, \<open>JSONDecodeError\<close>, \<open>OtherException\<close>), what the
  operations of the language raise, and the exceptions of the host framework.
  \<^verbatim>\<open>KeyboardInterrupt\<close> and \<^verbatim>\<open>SystemExit\<close>, which are no subclasses of
  \<^verbatim>\<open>Exception\<close>, are signals to the process and no outcome of an HTTP call.
\<close>

datatype exn =
    RequestException string
  | JSONDecodeError
  | OtherException string
  | KeyError
  | TypeError
  | AttributeError
  | StopIteration
  | RuntimeError
  | UpdateFailed string
  | TimeoutError
  | ConfigEntryNotReady
  | Invalid

text \<open>Truth value of a JSON value in a Python condition (\<^verbatim>\<open>if x:\<close>).\<close>

fun truthy :: "json \<Rightarrow> bool" where
  "truthy JNull = False"
| "truthy (JBool b) = b"
| "truthy (JInt i) = (i \<noteq> 0)"
| "truthy (JFloat (Finite m e)) = (m \<noteq> 0)"
| "truthy (JFloat _) = True"
| "truthy (JStr s) = (s \<noteq> [])"
| "truthy (JArr xs) = (xs \<noteq> [])"
| "truthy (JObj kvs) = (kvs \<noteq> [])"

text \<open>
  Subscription with a string key, \<^verbatim>\<open>v["key"]\<close>: a dict raises \<^verbatim>\<open>KeyError\<close> for
  a missing key, every other JSON value raises \<^verbatim>\<open>TypeError\<close> (a list or a string
  wants an integer index, the rest is not subscriptable).
\<close>

fun getitem :: "json \<Rightarrow> string \<Rightarrow> exn + json" where
  "getitem (JObj kvs) k = (case map_of kvs k of None \<Rightarrow> Inl KeyError | Some v \<Rightarrow> Inr v)"
| "getitem _ k = Inl TypeError"

text \<open>A value of type \<^verbatim>\<open>str | None\<close> seen as a Python value.\<close>

definition opt_str :: "string option \<Rightarrow> json" where
  "opt_str a = (case a of None \<Rightarrow> JNull | Some s \<Rightarrow> JStr s)"

text \<open>\<^verbatim>\<open>sep.join(xs)\<close>: every element must be a \<^verbatim>\<open>str\<close>, else \<^verbatim>\<open>TypeError\<close>.\<close>

fun str_join :: "string \<Rightarrow> json list \<Rightarrow> exn + string" where
  "str_join sep [] = Inr []"
| "str_join sep [JStr s] = Inr s"
| "str_join sep (JStr s # x # xs) =
     (case str_join sep (x # xs) of Inl e \<Rightarrow> Inl e | Inr r \<Rightarrow> Inr (s @ sep @ r))"
| "str_join sep (_ # xs) = Inl TypeError"

text \<open>
  \<^verbatim>\<open>a + b\<close> on values of type \<^verbatim>\<open>str | None\<close>: two strings are concatenated, and
  \<^verbatim>\<open>None\<close> on either side raises \<^verbatim>\<open>TypeError\<close>.
\<close>

fun py_add :: "string option \<Rightarrow> string option \<Rightarrow> exn + string option" where
  "py_add (Some a) (Some b) = Inr (Some (a @ b))"
| "py_add _ _ = Inl TypeError"

section \<open>The data model\<close>

text \<open>
  The dataclass \<^verbatim>\<open>IpmiDeviceInfo\<close>. Its fields hold what the bridge sent, whatever
  the annotations say; \<open>IpmiDeviceInfo0\<close> is the instance the constructor builds
  from the defaults.
\<close>

record IpmiDeviceInfo =
  info_device :: json
  info_power_on :: json
  info_sensors :: json
  info_states :: json
  info_alias :: "string option"

definition IpmiDeviceInfo0 :: IpmiDeviceInfo where
  "IpmiDeviceInfo0 =
     \<lparr>info_device = JNull, info_power_on = JBool False, info_sensors = JNull,
      info_states = JNull, info_alias = None\<rparr>"

text \<open>The attributes of a \<^verbatim>\<open>PyIpmiData\<close> object (\<^verbatim>\<open>self._host\<close> and so on).\<close>

record PyIpmiData =
  self_host :: string
  self_port :: int
  self_alias :: "string option"
  self_username :: "string option"
  self_password :: "string option"
  self_device_info :: "IpmiDeviceInfo option"

definition PyIpmiData_init ::
  "string \<Rightarrow> int \<Rightarrow> string option \<Rightarrow> string option \<Rightarrow> string option \<Rightarrow> PyIpmiData" where
  "PyIpmiData_init host port alias username password =
     \<lparr>self_host = host, self_port = port, self_alias = alias, self_username = username,
      self_password = password, self_device_info = None\<rparr>"

definition name :: "PyIpmiData \<Rightarrow> string" where
  "name self =
     (case self_alias self of
        None \<Rightarrow> ''IPMI-'' @ self_host self
      | Some a \<Rightarrow> if a \<noteq> [] then a else ''IPMI-'' @ self_host self)"

definition device_info :: "PyIpmiData \<Rightarrow> IpmiDeviceInfo option" where
  "device_info self = self_device_info self"

section \<open>The outside world\<close>

text \<open>
  One call of \<^verbatim>\<open>requests.get(url, params=params)\<close> is a \<open>request\<close>. The
  \<open>world\<close> records the effects of the code in the order they happen: the requests
  issued and the calls of \<^verbatim>\<open>_LOGGER.error\<close>. The bridge is a function from the
  request to what \<^verbatim>\<open>requests.get(...).json()\<close> does with it: it raises (network
  error, timeout, a body that is not JSON) or returns the parsed body.
\<close>

record params =
  p_host :: string
  p_port :: int
  p_user :: "string option"
  p_password :: "string option"

record request =
  req_url :: string
  req_params :: params

datatype log_entry =
    ErrorMessage json
  | ErrorConnecting string exn

record world =
  requests :: "request list"
  errors :: "log_entry list"

type_synonym bridge = "request \<Rightarrow> exn + json"

section \<open>The poller\<close>

text \<open>
  \<^verbatim>\<open>IPMI_URL\<close> is a constant of \<^verbatim>\<open>const.py\<close>, which is not part of the sources
  at hand: it is a parameter of every operation that uses it.
\<close>

definition getJson ::
  "bridge \<Rightarrow> string \<Rightarrow> PyIpmiData \<Rightarrow> string option \<Rightarrow> world \<Rightarrow> (exn + json) \<times> world" where
  "getJson bridge IPMI_URL self path w =
     (let params = \<lparr>p_host = self_host self, p_port = self_port self,
                     p_user = self_username self, p_password = self_password self\<rparr>;
          url = (case path of None \<Rightarrow> IPMI_URL | Some p \<Rightarrow> IPMI_URL @ ''/'' @ p);
          req = \<lparr>req_url = url, req_params = params\<rparr>
      in (bridge req, w\<lparr>requests := requests w @ [req]\<rparr>))"

text \<open>
  The body of the \<^verbatim>\<open>try\<close> block of \<^verbatim>\<open>update\<close>. The new \<^verbatim>\<open>info\<close> object is
  filled field by field and assigned to \<^verbatim>\<open>self._device_info\<close> by the last statement
  of the branch; an exception leaves the block at the statement that raises.
\<close>

definition update_try ::
  "bridge \<Rightarrow> string \<Rightarrow> PyIpmiData \<Rightarrow> world \<Rightarrow> (exn + unit) \<times> PyIpmiData \<times> world" where
  "update_try bridge IPMI_URL self w =
     (case getJson bridge IPMI_URL self None w of
        (Inl e, w1) \<Rightarrow> (Inl e, self, w1)
      | (Inr json, w1) \<Rightarrow>
          (case getitem json ''success'' of
             Inl e \<Rightarrow> (Inl e, self, w1)
           | Inr success \<Rightarrow>
               if truthy success then
                 (let info = IpmiDeviceInfo0 in
                  case getitem json ''device'' of
                    Inl e \<Rightarrow> (Inl e, self, w1)
                  | Inr d \<Rightarrow>
                 (let info = info\<lparr>info_device := d\<rparr> in
                  case getitem json ''power_on'' of
                    Inl e \<Rightarrow> (Inl e, self, w1)
                  | Inr p \<Rightarrow>
                 (let info = info\<lparr>info_power_on := p\<rparr> in
                  case getitem json ''sensors'' of
                    Inl e \<Rightarrow> (Inl e, self, w1)
                  | Inr se \<Rightarrow>
                 (let info = info\<lparr>info_sensors := se\<rparr> in
                  case getitem json ''states'' of
                    Inl e \<Rightarrow> (Inl e, self, w1)
                  | Inr st \<Rightarrow>
                 (let info = info\<lparr>info_states := st\<rparr>;
                      info = info\<lparr>info_alias := self_alias self\<rparr>
                  in (Inr (), self\<lparr>self_device_info := Some info\<rparr>, w1))))))
               else
                 (case getitem json ''message'' of
                    Inl e \<Rightarrow> (Inl e, self, w1)
                  | Inr m \<Rightarrow> (Inr (), self, w1\<lparr>errors := errors w1 @ [ErrorMessage m]\<rparr>))))"

text \<open>
  \<^verbatim>\<open>update\<close>: the \<^verbatim>\<open>try\<close> block under \<^verbatim>\<open>except (Exception) as err\<close>, whose
  handler logs the error with the host.
\<close>

definition update ::
  "bridge \<Rightarrow> string \<Rightarrow> PyIpmiData \<Rightarrow> world \<Rightarrow> (exn + unit) \<times> PyIpmiData \<times> world" where
  "update bridge IPMI_URL self w =
     (case update_try bridge IPMI_URL self w of
        (Inl err, self', w') \<Rightarrow>
          (Inr (), self', w'\<lparr>errors := errors w' @ [ErrorConnecting (self_host self') err]\<rparr>)
      | (Inr u, self', w') \<Rightarrow> (Inr u, self', w'))"

text \<open>
  The five commands. Each is \<^verbatim>\<open>self.getJson("<command>")\<close> in a \<^verbatim>\<open>try\<close> block
  under the same handler as \<^verbatim>\<open>update\<close>; the answer of the bridge is dropped and no
  attribute of \<^verbatim>\<open>self\<close> is assigned.
\<close>

definition power_on :: "bridge \<Rightarrow> string \<Rightarrow> PyIpmiData \<Rightarrow> world \<Rightarrow> (exn + unit) \<times> world" where
  "power_on bridge IPMI_URL self w =
     (case getJson bridge IPMI_URL self (Some ''power_on'') w of
        (Inl err, w') \<Rightarrow>
          (Inr (), w'\<lparr>errors := errors w' @ [ErrorConnecting (self_host self) err]\<rparr>)
      | (Inr json, w') \<Rightarrow> (Inr (), w'))"

definition power_off :: "bridge \<Rightarrow> string \<Rightarrow> PyIpmiData \<Rightarrow> world \<Rightarrow> (exn + unit) \<times> world" where
  "power_off bridge IPMI_URL self w =
     (case getJson bridge IPMI_URL self (Some ''power_off'') w of
        (Inl err, w') \<Rightarrow>
          (Inr (), w'\<lparr>errors := errors w' @ [ErrorConnecting (self_host self) err]\<rparr>)
      | (Inr json, w') \<Rightarrow> (Inr (), w'))"

definition power_cycle :: "bridge \<Rightarrow> string \<Rightarrow> PyIpmiData \<Rightarrow> world \<Rightarrow> (exn + unit) \<times> world" where
  "power_cycle bridge IPMI_URL self w =
     (case getJson bridge IPMI_URL self (Some ''power_cycle'') w of
        (Inl err, w') \<Rightarrow>
          (Inr (), w'\<lparr>errors := errors w' @ [ErrorConnecting (self_host self) err]\<rparr>)
      | (Inr json, w') \<Rightarrow> (Inr (), w'))"

definition power_reset :: "bridge \<Rightarrow> string \<Rightarrow> PyIpmiData \<Rightarrow> world \<Rightarrow> (exn + unit) \<times> world" where
  "power_reset bridge IPMI_URL self w =
     (case getJson bridge IPMI_URL self (Some ''power_reset'') w of
        (Inl err, w') \<Rightarrow>
          (Inr (), w'\<lparr>errors := errors w' @ [ErrorConnecting (self_host self) err]\<rparr>)
      | (Inr json, w') \<Rightarrow> (Inr (), w'))"

definition soft_shutdown :: "bridge \<Rightarrow> string \<Rightarrow> PyIpmiData \<Rightarrow> world \<Rightarrow> (exn + unit) \<times> world" where
  "soft_shutdown bridge IPMI_URL self w =
     (case getJson bridge IPMI_URL self (Some ''soft_shutdown'') w of
        (Inl err, w') \<Rightarrow>
          (Inr (), w'\<lparr>errors := errors w' @ [ErrorConnecting (self_host self) err]\<rparr>)
      | (Inr json, w') \<Rightarrow> (Inr (), w'))"

section \<open>The polling scheduler's update method\<close>

text \<open>
  \<^verbatim>\<open>async_update_data\<close> is what the host's \<^verbatim>\<open>DataUpdateCoordinator\<close> calls on
  every poll; an exception it raises is the poll error the coordinator sees, a value it
  returns is the fresh data of a successful poll. An \<^verbatim>\<open>IpmiDeviceInfo\<close> object is
  always true in a condition, so \<^verbatim>\<open>not data.device_info\<close> holds for \<^verbatim>\<open>None\<close> only.

  The body stands under \<^verbatim>\<open>async with async_timeout.timeout(10)\<close>. How long the job
  in the executor takes is a matter of real time and a parameter here: \<open>timed_out\<close>
  says that \<^verbatim>\<open>data.update\<close> has not returned within the ten seconds. Then the wait
  for it ends in \<^verbatim>\<open>TimeoutError\<close> and the test of \<^verbatim>\<open>data.device_info\<close> is not
  reached. The thread of the job is not interrupted by that: it runs \<^verbatim>\<open>update\<close> to
  its end, so the object and the world are those that \<open>update\<close> leaves.
\<close>

definition async_update_data ::
  "bool \<Rightarrow> bridge \<Rightarrow> string \<Rightarrow> PyIpmiData \<Rightarrow> world
     \<Rightarrow> (exn + IpmiDeviceInfo) \<times> PyIpmiData \<times> world" where
  "async_update_data timed_out bridge IPMI_URL data w =
     (case update bridge IPMI_URL data w of
        (r, data', w') \<Rightarrow>
          if timed_out then (Inl TimeoutError, data', w')
          else
            (case r of
               Inl e \<Rightarrow> (Inl e, data', w')
             | Inr u \<Rightarrow>
                 (case device_info data' of
                    None \<Rightarrow> (Inl (UpdateFailed ''Error fetching IPMI state''), data', w')
                  | Some info \<Rightarrow> (Inr info, data', w'))))"

section \<open>Identity derivation and setup\<close>

definition unique_id_from_status :: "IpmiDeviceInfo \<Rightarrow> exn + string option" where
  "unique_id_from_status info =
     (let alias = info_alias info in
      if \<not> truthy (opt_str alias) then Inr None
      else
       (case getitem (info_device info) ''manufacturer_name'' of
          Inl e \<Rightarrow> Inl e
        | Inr manufacturer \<Rightarrow>
       (case getitem (info_device info) ''product_name'' of
          Inl e \<Rightarrow> Inl e
        | Inr product_name \<Rightarrow>
       (let unique_id_group = [];
            unique_id_group =
              (if truthy manufacturer then unique_id_group @ [manufacturer]
               else if truthy product_name then unique_id_group @ [product_name]
               else unique_id_group);
            unique_id_group =
              (if truthy (opt_str alias) then unique_id_group @ [opt_str alias]
               else unique_id_group)
        in (case str_join ''_'' unique_id_group of
              Inl e \<Rightarrow> Inl e
            | Inr s \<Rightarrow> Inr (Some s))))))"

text \<open>
  The part of a config entry that \<^verbatim>\<open>async_setup_entry\<close> reads: its id and the
  connection data. \<^verbatim>\<open>alias\<close>, \<^verbatim>\<open>username\<close> and \<^verbatim>\<open>password\<close> are read with
  \<^verbatim>\<open>config.get\<close> and may be \<^verbatim>\<open>None\<close>.
\<close>

record ConfigEntry =
  entry_id :: string
  conf_host :: string
  conf_port :: int
  conf_alias :: "string option"
  conf_username :: "string option"
  conf_password :: "string option"

text \<open>
  What a completed setup leaves behind: the poller object, the unique id stored for the
  entry and given to the device registry as the device's identifier, and the
  manufacturer, model and firmware version registered with it.
\<close>

record setup_result =
  res_data :: PyIpmiData
  res_unique_id :: string
  res_manufacturer :: json
  res_model :: json
  res_sw_version :: json

text \<open>
  \<^verbatim>\<open>async_setup_entry\<close>, from the construction of the poller to the device registry
  call. The first refresh of the coordinator calls \<^verbatim>\<open>async_update_data\<close> once and
  raises \<^verbatim>\<open>ConfigEntryNotReady\<close> when that call fails (also by running out of
  time); otherwise its data is what the call returned. The moving of stale options, the update listener, the display name
  (\<^verbatim>\<open>data.name.title()\<close>, which cannot raise) and the forwarding to the entity
  platforms belong to the host and are left out.
\<close>

definition async_setup_entry ::
  "bool \<Rightarrow> bridge \<Rightarrow> string \<Rightarrow> ConfigEntry \<Rightarrow> world \<Rightarrow> (exn + setup_result) \<times> world" where
  "async_setup_entry timed_out bridge IPMI_URL entry w =
     (let alias = conf_alias entry;
          data = PyIpmiData_init (conf_host entry) (conf_port entry) alias
                   (conf_username entry) (conf_password entry)
      in case async_update_data timed_out bridge IPMI_URL data w of
           (Inl e, data, w1) \<Rightarrow> (Inl ConfigEntryNotReady, w1)
         | (Inr deviceInfo, data, w1) \<Rightarrow>
        (case unique_id_from_status deviceInfo of
           Inl e \<Rightarrow> (Inl e, w1)
         | Inr status_id \<Rightarrow>
        (case py_add alias status_id of
           Inl e \<Rightarrow> (Inl e, w1)
         | Inr unique_id \<Rightarrow>
        (let unique_id = (case unique_id of None \<Rightarrow> entry_id entry | Some u \<Rightarrow> u) in
         case self_device_info data of
           None \<Rightarrow> (Inl AttributeError, w1)
         | Some info \<Rightarrow>
        (case getitem (info_device info) ''manufacturer_name'' of
           Inl e \<Rightarrow> (Inl e, w1)
         | Inr manufacturer \<Rightarrow>
        (case getitem (info_device info) ''product_name'' of
           Inl e \<Rightarrow> (Inl e, w1)
         | Inr model \<Rightarrow>
        (case getitem (info_device info) ''firmware_revision'' of
           Inl e \<Rightarrow> (Inl e, w1)
         | Inr sw_version \<Rightarrow>
             (Inr \<lparr>res_data = data, res_unique_id = unique_id,
                   res_manufacturer = manufacturer, res_model = model,
                   res_sw_version = sw_version\<rparr>, w1))))))))"

section \<open>Device actions\<close>

text \<open>
  Modelled from the spec: \<^verbatim>\<open>INTEGRATION_SUPPORTED_COMMANDS\<close> is a constant of
  \<^verbatim>\<open>const.py\<close>, which is not part of the sources at hand; the spec gives the fixed
  set of five command names.
\<close>

definition INTEGRATION_SUPPORTED_COMMANDS :: "string list" where
  "INTEGRATION_SUPPORTED_COMMANDS =
     [''power_on'', ''power_off'', ''power_cycle'', ''power_reset'', ''soft_shutdown'']"

text \<open>\<^verbatim>\<open>cmd.replace(".", "_")\<close>: every dot becomes an underscore.\<close>

definition replace_dot :: "string \<Rightarrow> string" where
  "replace_dot cmd = map (\<lambda>c. if c = CHR ''.'' then CHR ''_'' else c) cmd"

definition ACTION_TYPES :: "string set" where
  "ACTION_TYPES = set (map replace_dot INTEGRATION_SUPPORTED_COMMANDS)"

text \<open>
  The configuration of a device action, with the keys the base schema of the host
  requires. \<^verbatim>\<open>ACTION_SCHEMA\<close> adds \<^verbatim>\<open>vol.In(ACTION_TYPES)\<close> for the type: a
  configuration with another type is refused with \<^verbatim>\<open>vol.Invalid\<close>. The schema is a
  check of the configuration alone: it has no access to a poller or to the network.
\<close>

record action_config =
  conf_type :: string
  conf_device_id :: string
  conf_domain :: string

definition ACTION_SCHEMA :: "action_config \<Rightarrow> exn + action_config" where
  "ACTION_SCHEMA config = (if conf_type config \<in> ACTION_TYPES then Inr config else Inl Invalid)"

text \<open>
  What the device actions read of the host: the device registry (for a device id, the
  config entries of the device) and \<^verbatim>\<open>hass.data[DOMAIN]\<close> (for an entry id, the poller
  stored by the setup under \<^verbatim>\<open>PYIPMI_DATA\<close>).
\<close>

record hass =
  device_registry :: "string \<rightharpoonup> string list"
  domain_data :: "string \<rightharpoonup> PyIpmiData"

definition get_entry_id_from_device_id :: "hass \<Rightarrow> string \<Rightarrow> exn + string option" where
  "get_entry_id_from_device_id h device_id =
     (case device_registry h device_id of
        None \<Rightarrow> Inr None
      | Some config_entries \<Rightarrow>
          (case config_entries of [] \<Rightarrow> Inl StopIteration | entry # _ \<Rightarrow> Inr (Some entry)))"

text \<open>
  The names that the class \<^verbatim>\<open>PyIpmiData\<close> and its constructor define on an object.
  Under any other name \<^verbatim>\<open>getattr\<close> finds what every Python object has
  (\<^verbatim>\<open>__repr__\<close>, \<^verbatim>\<open>__class__\<close>, \<^verbatim>\<open>__dict__\<close> and the like), or nothing.
\<close>

definition PyIpmiData_attributes :: "string list" where
  "PyIpmiData_attributes =
     [''power_on'', ''power_off'', ''power_cycle'', ''power_reset'', ''soft_shutdown'',
      ''update'', ''getJson'', ''__init__'', ''name'', ''device_info'',
      ''_host'', ''_port'', ''_alias'', ''_username'', ''_password'', ''_device_info'']"

text \<open>
  \<^verbatim>\<open>command = getattr(data, device_action_name)\<close> followed by the call \<^verbatim>\<open>command()\<close>
  in the executor. A method is run; \<^verbatim>\<open>getJson\<close> and \<^verbatim>\<open>__init__\<close> miss their
  arguments and the values of properties and data attributes cannot be called
  (\<^verbatim>\<open>TypeError\<close>). The attributes that every object has depend on the version of
  Python and are a parameter: for a name the class does not define, \<open>inherited\<close>
  says how the call of that attribute without arguments ends (none of them issues a
  request or assigns to the poller), and is \<open>None\<close> when the object has no
  attribute of that name (\<^verbatim>\<open>AttributeError\<close>).
\<close>

definition call_attribute ::
  "(string \<Rightarrow> (exn + unit) option) \<Rightarrow> bridge \<Rightarrow> string \<Rightarrow> PyIpmiData \<Rightarrow> string \<Rightarrow> world
     \<Rightarrow> (exn + unit) \<times> PyIpmiData \<times> world" where
  "call_attribute inherited bridge IPMI_URL data device_action_name w =
     (if device_action_name = ''power_on'' then
        (case power_on bridge IPMI_URL data w of (r, w') \<Rightarrow> (r, data, w'))
      else if device_action_name = ''power_off'' then
        (case power_off bridge IPMI_URL data w of (r, w') \<Rightarrow> (r, data, w'))
      else if device_action_name = ''power_cycle'' then
        (case power_cycle bridge IPMI_URL data w of (r, w') \<Rightarrow> (r, data, w'))
      else if device_action_name = ''power_reset'' then
        (case power_reset bridge IPMI_URL data w of (r, w') \<Rightarrow> (r, data, w'))
      else if device_action_name = ''soft_shutdown'' then
        (case soft_shutdown bridge IPMI_URL data w of (r, w') \<Rightarrow> (r, data, w'))
      else if device_action_name = ''update'' then update bridge IPMI_URL data w
      else if device_action_name \<in> set PyIpmiData_attributes then (Inl TypeError, data, w)
      else
        (case inherited device_action_name of
           None \<Rightarrow> (Inl AttributeError, data, w)
         | Some r \<Rightarrow> (r, data, w)))"

text \<open>
  \<^verbatim>\<open>async_call_action_from_config\<close>. A \<^verbatim>\<open>StopIteration\<close> that leaves a coroutine
  arrives at its caller as \<^verbatim>\<open>RuntimeError\<close>; a device or an entry that is not known
  ends in the \<^verbatim>\<open>KeyError\<close> of the lookup in \<^verbatim>\<open>hass.data\<close>. The poller is an object
  shared with \<^verbatim>\<open>hass.data\<close>, so what the call does to it is stored there.
\<close>

definition async_call_action_from_config ::
  "(string \<Rightarrow> (exn + unit) option) \<Rightarrow> bridge \<Rightarrow> string \<Rightarrow> hass \<Rightarrow> action_config \<Rightarrow> world
     \<Rightarrow> (exn + unit) \<times> hass \<times> world" where
  "async_call_action_from_config inherited bridge IPMI_URL h config w =
     (let device_action_name = conf_type config;
          device_id = conf_device_id config
      in case get_entry_id_from_device_id h device_id of
           Inl e \<Rightarrow> (Inl RuntimeError, h, w)
         | Inr None \<Rightarrow> (Inl KeyError, h, w)
         | Inr (Some eid) \<Rightarrow>
             (case domain_data h eid of
                None \<Rightarrow> (Inl KeyError, h, w)
              | Some data \<Rightarrow>
                  (case call_attribute inherited bridge IPMI_URL data device_action_name w of
                     (r, data', w') \<Rightarrow>
                       (r, h\<lparr>domain_data := (domain_data h)(eid \<mapsto> data')\<rparr>, w'))))"

text \<open>
  The dispatch of a device action. The module hands \<^verbatim>\<open>ACTION_SCHEMA\<close> and
  \<^verbatim>\<open>async_call_action_from_config\<close> to the host, which validates the configuration
  of an action against the schema and calls the function with a configuration that
  has passed: \<^verbatim>\<open>async_call_action_from_config\<close> itself reads the type without any
  check. \<open>device_action\<close> is the two steps in this order.
\<close>

definition device_action ::
  "(string \<Rightarrow> (exn + unit) option) \<Rightarrow> bridge \<Rightarrow> string \<Rightarrow> hass \<Rightarrow> action_config \<Rightarrow> world
     \<Rightarrow> (exn + unit) \<times> hass \<times> world" where
  "device_action inherited bridge IPMI_URL h config w =
     (case ACTION_SCHEMA config of
        Inl e \<Rightarrow> (Inl e, h, w)
      | Inr validated \<Rightarrow> async_call_action_from_config inherited bridge IPMI_URL h validated w)"

section \<open>Example values\<close>

text \<open>
  The scenario of the specification: the bridge answers with a device of manufacturer
  Acme and product X1, to a poller configured with the alias rack3.
\<close>

definition acme_device :: json where
  "acme_device =
     JObj [(''manufacturer_name'', JStr ''Acme''), (''product_name'', JStr ''X1''),
           (''firmware_revision'', JStr ''1.0'')]"

definition acme_response :: json where
  "acme_response =
     JObj [(''success'', JBool True), (''device'', acme_device), (''power_on'', JBool True),
           (''sensors'', JObj []), (''states'', JObj [])]"

definition acme_snapshot :: IpmiDeviceInfo where
  "acme_snapshot =
     \<lparr>info_device = acme_device, info_power_on = JBool True, info_sensors = JObj [],
      info_states = JObj [], info_alias = Some ''rack3''\<rparr>"

definition rack3 :: PyIpmiData where
  "rack3 = PyIpmiData_init ''10.0.0.5'' 623 (Some ''rack3'') (Some ''admin'') (Some ''secret'')"

definition rack3_params :: params where
  "rack3_params =
     \<lparr>p_host = ''10.0.0.5'', p_port = 623, p_user = Some ''admin'', p_password = Some ''secret''\<rparr>"

definition world0 :: world where
  "world0 = \<lparr>requests = [], errors = []\<rparr>"

definition acme_bridge :: bridge where
  "acme_bridge req = Inr acme_response"

definition auth_failed_bridge :: bridge where
  "auth_failed_bridge req = Inr (JObj [(''success'', JBool False), (''message'', JStr ''auth failed'')])"

definition refused_bridge :: bridge where
  "refused_bridge req = Inl (RequestException ''connection refused'')"

definition malformed_bridge :: bridge where
  "malformed_bridge req = Inr (JArr [])"

definition no_success_bridge :: bridge where
  "no_success_bridge req = Inr (JObj [(''message'', JStr ''auth failed'')])"

definition stale_rack3 :: PyIpmiData where
  "stale_rack3 = rack3\<lparr>self_device_info := Some acme_snapshot\<rparr>"

definition old_snapshot :: IpmiDeviceInfo where
  "old_snapshot =
     \<lparr>info_device = JNull, info_power_on = JBool False,
      info_sensors = JObj [(''fan1'', JStr ''4200 RPM'')], info_states = JNull,
      info_alias = Some ''old''\<rparr>"

definition incomplete_bridge :: bridge where
  "incomplete_bridge req =
     Inr (JObj [(''success'', JBool True), (''device'', acme_device), (''power_on'', JBool True),
                (''sensors'', JObj [])])"

definition nameless_snapshot :: IpmiDeviceInfo where
  "nameless_snapshot =
     \<lparr>info_device = JObj [(''manufacturer_name'', JStr []), (''product_name'', JStr [])],
      info_power_on = JBool True, info_sensors = JObj [], info_states = JObj [],
      info_alias = Some ''rack3''\<rparr>"

definition product_only_snapshot :: IpmiDeviceInfo where
  "product_only_snapshot =
     \<lparr>info_device = JObj [(''manufacturer_name'', JNull), (''product_name'', JStr ''X1'')],
      info_power_on = JBool True, info_sensors = JObj [], info_states = JObj [],
      info_alias = Some ''rack3''\<rparr>"

definition entry_without_alias :: ConfigEntry where
  "entry_without_alias =
     \<lparr>entry_id = ''entry1'', conf_host = ''10.0.0.5'', conf_port = 623, conf_alias = None,
      conf_username = Some ''admin'', conf_password = Some ''secret''\<rparr>"

definition registered_hass :: hass where
  "registered_hass =
     \<lparr>device_registry = [''device1'' \<mapsto> [''entry1'']], domain_data = [''entry1'' \<mapsto> rack3]\<rparr>"

text \<open>
  The examples dispatch names that the class defines and the name \<^verbatim>\<open>launch\<close>,
  which no object has: the attributes that every object has are not consulted for the
  first and have no entry for the second.
\<close>

definition no_inherited :: "string \<Rightarrow> (exn + unit) option" where
  "no_inherited n = None"

definition action :: "string \<Rightarrow> action_config" where
  "action t = \<lparr>conf_type = t, conf_device_id = ''device1'', conf_domain = ''ipmitool''\<rparr>"

section \<open>Properties of the poller\<close>

subsection \<open>Auxiliary facts\<close>

lemma getitem_dict_KeyError:
  "getitem json k = Inr v \<Longrightarrow> getitem json k' = Inl e \<Longrightarrow> e = KeyError"
  by (cases json) (auto split: option.splits)

lemma getJson_requests:
  "requests (snd (getJson bridge IPMI_URL self path w)) =
     requests w @
       [\<lparr>req_url = (case path of None \<Rightarrow> IPMI_URL | Some p \<Rightarrow> IPMI_URL @ ''/'' @ p),
         req_params = \<lparr>p_host = self_host self, p_port = self_port self,
                        p_user = self_username self, p_password = self_password self\<rparr>\<rparr>]"
  by (simp add: getJson_def Let_def)

lemma getJson_errors: "errors (snd (getJson bridge IPMI_URL self path w)) = errors w"
  by (simp add: getJson_def Let_def)

text \<open>
  The three ways out of the \<^verbatim>\<open>try\<close> block: an exception with the object untouched,
  a logged rejection with the object untouched, or a new snapshot.
\<close>

lemma update_try_cases:
  assumes "update_try bridge IPMI_URL self w = (r, self', w')"
  shows "requests w' = requests (snd (getJson bridge IPMI_URL self None w)) \<and>
     ((\<exists>e. r = Inl e \<and> self' = self \<and> errors w' = errors w) \<or>
      (\<exists>m. r = Inr () \<and> self' = self \<and> errors w' = errors w @ [ErrorMessage m]) \<or>
      (\<exists>i. r = Inr () \<and> self' = self\<lparr>self_device_info := Some i\<rparr> \<and> errors w' = errors w))"
  using assms
  by (cases "bridge \<lparr>req_url = IPMI_URL,
        req_params = \<lparr>p_host = self_host self, p_port = self_port self,
                       p_user = self_username self, p_password = self_password self\<rparr>\<rparr>")
     (auto simp: update_try_def getJson_def Let_def split: sum.splits if_splits)

lemma update_of_try:
  assumes "update_try bridge IPMI_URL self w = (r, self', w')"
  shows "fst (update bridge IPMI_URL self w) = Inr ()"
    and "fst (snd (update bridge IPMI_URL self w)) = self'"
    and "requests (snd (snd (update bridge IPMI_URL self w))) = requests w'"
  using assms by (simp_all add: update_def split: sum.splits)

subsection \<open>Failed polls\<close>

text \<open>
  A poll that fails in time while a snapshot is stored is answered with that snapshot.
\<close>

lemma async_update_data_stale:
  assumes "device_info data = Some old"
    and "fst (getJson bridge IPMI_URL data None w) = Inl cause \<or>
         (fst (getJson bridge IPMI_URL data None w) = Inr json \<and>
          getitem json ''success'' = Inr success \<and> \<not> truthy success)"
  shows "fst (async_update_data False bridge IPMI_URL data w) = Inr old"
  using assms
  by (cases "getJson bridge IPMI_URL data None w")
     (auto simp: async_update_data_def update_def update_try_def device_info_def
           split: sum.splits)

text \<open>
  A poll that runs out of time is a poll error, with or without a snapshot.
\<close>

lemma async_update_data_timed_out:
  "fst (async_update_data True bridge IPMI_URL data w) = Inl TimeoutError"
  by (simp add: async_update_data_def split: prod.splits)

text \<open>
  C1. Claim: every failed poll is reported to the polling scheduler as a poll error, also
  when a snapshot is stored, and never becomes a successful result with stale data.
  The code does otherwise. \<^verbatim>\<open>async_update_data\<close> raises \<^verbatim>\<open>UpdateFailed\<close> only
  when no snapshot is stored: for a poller without a snapshot both a refused connection
  and a rejected request end in \<open>UpdateFailed\<close>, and for a poller that holds the
  snapshot of an earlier poll the same two failures, met within the time limit, return
  that snapshot as the result of a successful poll.
\<close>

theorem async_update_data_returns_stale_snapshot:
  "fst (async_update_data False refused_bridge ''http://bridge'' stale_rack3 world0) =
     Inr acme_snapshot \<and>
   fst (async_update_data False auth_failed_bridge ''http://bridge'' stale_rack3 world0) =
     Inr acme_snapshot \<and>
   fst (async_update_data False refused_bridge ''http://bridge'' rack3 world0) =
     Inl (UpdateFailed ''Error fetching IPMI state'') \<and>
   fst (async_update_data False auth_failed_bridge ''http://bridge'' rack3 world0) =
     Inl (UpdateFailed ''Error fetching IPMI state'')"
  by (simp add: async_update_data_def update_def update_try_def getJson_def device_info_def
      refused_bridge_def auth_failed_bridge_def stale_rack3_def rack3_def PyIpmiData_init_def)

text \<open>
  A poll either fails in one of four ways (the HTTP call or the parsing of its answer
  raises, the \<^verbatim>\<open>try\<close> block raises later, the answer has no \<^verbatim>\<open>success\<close> flag
  that can be read, or the flag is false) or it is a successful poll: the flag is true
  and the four fields are there.
\<close>

lemma poll_fails_or_succeeds:
  "(\<exists>cause. fst (getJson bridge IPMI_URL self None w) = Inl cause) \<or>
   (\<exists>cause. fst (update_try bridge IPMI_URL self w) = Inl cause) \<or>
   (\<exists>json cause. fst (getJson bridge IPMI_URL self None w) = Inr json \<and>
      getitem json ''success'' = Inl cause) \<or>
   (\<exists>json success. fst (getJson bridge IPMI_URL self None w) = Inr json \<and>
      getitem json ''success'' = Inr success \<and> \<not> truthy success) \<or>
   (\<exists>json success d p se st. fst (getJson bridge IPMI_URL self None w) = Inr json \<and>
      getitem json ''success'' = Inr success \<and> truthy success \<and>
      getitem json ''device'' = Inr d \<and> getitem json ''power_on'' = Inr p \<and>
      getitem json ''sensors'' = Inr se \<and> getitem json ''states'' = Inr st)"
proof (cases "getJson bridge IPMI_URL self None w")
  case (Pair r w1)
  show ?thesis
  proof (cases r)
    case (Inl cause)
    with Pair show ?thesis by simp
  next
    case (Inr json)
    with Pair show ?thesis
      by (auto simp: update_try_def split: sum.splits)
  qed
qed

text \<open>
  C4. A poll that fails leaves the snapshot that \<^verbatim>\<open>device_info\<close> returns, and the
  whole object, as it was before the call. A poll fails when the HTTP call or the
  parsing of its answer raises, when anything else in the \<^verbatim>\<open>try\<close> block raises,
  when the answer is no object or has no \<^verbatim>\<open>success\<close> flag, and when the flag is
  false.
\<close>

theorem failed_poll_keeps_snapshot:
  assumes "fst (getJson bridge IPMI_URL self None w) = Inl cause \<or>
           fst (update_try bridge IPMI_URL self w) = Inl cause \<or>
           (fst (getJson bridge IPMI_URL self None w) = Inr json \<and>
            getitem json ''success'' = Inl cause) \<or>
           (fst (getJson bridge IPMI_URL self None w) = Inr json \<and>
            getitem json ''success'' = Inr success \<and> \<not> truthy success)"
  shows "device_info (fst (snd (update bridge IPMI_URL self w))) = device_info self \<and>
         fst (snd (update bridge IPMI_URL self w)) = self"
proof -
  obtain r self' w' where t: "update_try bridge IPMI_URL self w = (r, self', w')"
    by (cases "update_try bridge IPMI_URL self w") auto
  have "self' = self"
  proof (cases "getJson bridge IPMI_URL self None w")
    case (Pair x w1)
    with assms t show ?thesis
      by (auto simp: update_try_def split: sum.splits if_splits)
  qed
  with update_of_try(2) [OF t] show ?thesis by simp
qed

theorem failed_poll_keeps_snapshot_witness:
  "device_info stale_rack3 = Some acme_snapshot \<and>
   device_info (fst (snd (update refused_bridge ''http://bridge'' stale_rack3 world0))) =
     Some acme_snapshot \<and>
   device_info (fst (snd (update incomplete_bridge ''http://bridge'' stale_rack3 world0))) =
     Some acme_snapshot \<and>
   device_info (fst (snd (update malformed_bridge ''http://bridge'' stale_rack3 world0))) =
     Some acme_snapshot \<and>
   device_info (fst (snd (update no_success_bridge ''http://bridge'' stale_rack3 world0))) =
     Some acme_snapshot \<and>
   device_info (fst (snd (update auth_failed_bridge ''http://bridge'' stale_rack3 world0))) =
     Some acme_snapshot"
proof -
  have s: "device_info stale_rack3 = Some acme_snapshot"
    by (simp add: device_info_def stale_rack3_def)
  have r: "fst (getJson refused_bridge ''http://bridge'' stale_rack3 None world0) =
             Inl (RequestException ''connection refused'')"
    by (simp add: getJson_def refused_bridge_def)
  have i: "fst (update_try incomplete_bridge ''http://bridge'' stale_rack3 world0) = Inl KeyError"
    by (simp add: update_try_def getJson_def incomplete_bridge_def)
  have m: "fst (getJson malformed_bridge ''http://bridge'' stale_rack3 None world0) =
             Inr (JArr []) \<and> getitem (JArr []) ''success'' = Inl TypeError"
    by (simp add: getJson_def malformed_bridge_def)
  have n: "fst (getJson no_success_bridge ''http://bridge'' stale_rack3 None world0) =
             Inr (JObj [(''message'', JStr ''auth failed'')]) \<and>
           getitem (JObj [(''message'', JStr ''auth failed'')]) ''success'' = Inl KeyError"
    by (simp add: getJson_def no_success_bridge_def)
  have a: "fst (getJson auth_failed_bridge ''http://bridge'' stale_rack3 None world0) =
             Inr (JObj [(''success'', JBool False), (''message'', JStr ''auth failed'')]) \<and>
           getitem (JObj [(''success'', JBool False), (''message'', JStr ''auth failed'')])
             ''success'' = Inr (JBool False) \<and> \<not> truthy (JBool False)"
    by (simp add: getJson_def auth_failed_bridge_def)
  from failed_poll_keeps_snapshot [OF disjI1, OF r]
       failed_poll_keeps_snapshot [OF disjI2, OF disjI1, OF i]
       failed_poll_keeps_snapshot [OF disjI2, OF disjI2, OF disjI1, OF m]
       failed_poll_keeps_snapshot [OF disjI2, OF disjI2, OF disjI1, OF n]
       failed_poll_keeps_snapshot [OF disjI2, OF disjI2, OF disjI2, OF a]
       s
  show ?thesis by simp
qed

text \<open>
  C10. An answer with a true \<^verbatim>\<open>success\<close> flag that lacks one of the keys
  \<^verbatim>\<open>device\<close>, \<^verbatim>\<open>power_on\<close>, \<^verbatim>\<open>sensors\<close> and \<^verbatim>\<open>states\<close> raises
  \<^verbatim>\<open>KeyError\<close> before the assignment to \<^verbatim>\<open>self._device_info\<close>: the update returns
  normally, the snapshot stored before is still the one \<^verbatim>\<open>device_info\<close> returns, and
  the error is logged.
\<close>

theorem incomplete_response_keeps_snapshot:
  assumes "fst (getJson bridge IPMI_URL self None w) = Inr json"
    and "getitem json ''success'' = Inr success" and "truthy success"
    and "getitem json ''device'' = Inl KeyError \<or> getitem json ''power_on'' = Inl KeyError \<or>
         getitem json ''sensors'' = Inl KeyError \<or> getitem json ''states'' = Inl KeyError"
  shows "fst (update bridge IPMI_URL self w) = Inr () \<and>
         device_info (fst (snd (update bridge IPMI_URL self w))) = device_info self \<and>
         errors (snd (snd (update bridge IPMI_URL self w))) =
           errors w @ [ErrorConnecting (self_host self) KeyError]"
proof -
  obtain w1 where g: "getJson bridge IPMI_URL self None w = (Inr json, w1)"
    using assms(1) by (cases "getJson bridge IPMI_URL self None w") simp
  have w1: "errors w1 = errors w"
    using getJson_errors [of bridge IPMI_URL self None w] g by simp
  have k: "\<And>k e. getitem json k = Inl e \<Longrightarrow> e = KeyError"
    using assms(2) getitem_dict_KeyError by blast
  have "update_try bridge IPMI_URL self w = (Inl KeyError, self, w1)"
    using assms(2-4) g k
    by (auto simp: update_try_def Let_def split: sum.splits)
  then show ?thesis
    by (simp add: update_def w1)
qed

theorem incomplete_response_keeps_snapshot_witness:
  "fst (update incomplete_bridge ''http://bridge'' stale_rack3 world0) = Inr () \<and>
   device_info (fst (snd (update incomplete_bridge ''http://bridge'' stale_rack3 world0))) =
     Some acme_snapshot \<and>
   errors (snd (snd (update incomplete_bridge ''http://bridge'' stale_rack3 world0))) =
     [ErrorConnecting ''10.0.0.5'' KeyError]"
proof -
  let ?json = "JObj [(''success'', JBool True), (''device'', acme_device),
                     (''power_on'', JBool True), (''sensors'', JObj [])]"
  have g: "fst (getJson incomplete_bridge ''http://bridge'' stale_rack3 None world0) = Inr ?json"
    by (simp add: getJson_def incomplete_bridge_def)
  have s: "getitem ?json ''success'' = Inr (JBool True)" and t: "truthy (JBool True)"
    by simp_all
  have m: "getitem ?json ''device'' = Inl KeyError \<or> getitem ?json ''power_on'' = Inl KeyError \<or>
           getitem ?json ''sensors'' = Inl KeyError \<or> getitem ?json ''states'' = Inl KeyError"
    by simp
  from incomplete_response_keeps_snapshot [OF g s t m]
  show ?thesis
    by (simp add: device_info_def stale_rack3_def rack3_def PyIpmiData_init_def world0_def)
qed

subsection \<open>Successful polls\<close>

text \<open>
  C5. After a poll whose answer has a true \<^verbatim>\<open>success\<close> flag and the four expected
  keys, the stored snapshot is the one built from the \<^verbatim>\<open>device\<close>, \<^verbatim>\<open>power_on\<close>,
  \<^verbatim>\<open>sensors\<close> and \<^verbatim>\<open>states\<close> of the answer and the configured alias. No field of
  the snapshot stored before occurs in it.
\<close>

theorem successful_poll_replaces_snapshot:
  assumes "fst (getJson bridge IPMI_URL self None w) = Inr json"
    and "getitem json ''success'' = Inr success" and "truthy success"
    and "getitem json ''device'' = Inr d" and "getitem json ''power_on'' = Inr p"
    and "getitem json ''sensors'' = Inr se" and "getitem json ''states'' = Inr st"
  shows "device_info (fst (snd (update bridge IPMI_URL self w))) =
         Some \<lparr>info_device = d, info_power_on = p, info_sensors = se, info_states = st,
               info_alias = self_alias self\<rparr>"
  using assms
  by (cases "getJson bridge IPMI_URL self None w")
     (simp add: update_def update_try_def device_info_def IpmiDeviceInfo0_def)

theorem successful_poll_replaces_snapshot_witness:
  "device_info (rack3\<lparr>self_device_info := Some old_snapshot\<rparr>) = Some old_snapshot \<and>
   device_info (fst (snd (update acme_bridge ''http://bridge''
                  (rack3\<lparr>self_device_info := Some old_snapshot\<rparr>) world0))) =
     Some acme_snapshot"
proof -
  let ?self = "rack3\<lparr>self_device_info := Some old_snapshot\<rparr>"
  have g: "fst (getJson acme_bridge ''http://bridge'' ?self None world0) = Inr acme_response"
    by (simp add: getJson_def acme_bridge_def)
  have "device_info (fst (snd (update acme_bridge ''http://bridge'' ?self world0))) =
        Some \<lparr>info_device = acme_device, info_power_on = JBool True, info_sensors = JObj [],
              info_states = JObj [], info_alias = self_alias ?self\<rparr>"
    by (rule successful_poll_replaces_snapshot [OF g, of "JBool True"])
       (simp_all add: acme_response_def)
  then show ?thesis
    by (simp add: acme_snapshot_def rack3_def PyIpmiData_init_def device_info_def)
qed

subsection \<open>Requests and exceptions\<close>

text \<open>
  C8. Each of the five commands issues exactly one request, to \<^verbatim>\<open>IPMI_URL\<close> followed
  by a slash and the name of the command, and the status poll issues exactly one
  request to \<^verbatim>\<open>IPMI_URL\<close> itself; all six carry the host, port, user and password of
  the object as parameters.
\<close>

theorem commands_issue_one_request:
  "(let params = \<lparr>p_host = self_host self, p_port = self_port self,
                  p_user = self_username self, p_password = self_password self\<rparr>
    in requests (snd (snd (update bridge IPMI_URL self w))) =
         requests w @ [\<lparr>req_url = IPMI_URL, req_params = params\<rparr>] \<and>
       requests (snd (power_on bridge IPMI_URL self w)) =
         requests w @ [\<lparr>req_url = IPMI_URL @ ''/power_on'', req_params = params\<rparr>] \<and>
       requests (snd (power_off bridge IPMI_URL self w)) =
         requests w @ [\<lparr>req_url = IPMI_URL @ ''/power_off'', req_params = params\<rparr>] \<and>
       requests (snd (power_cycle bridge IPMI_URL self w)) =
         requests w @ [\<lparr>req_url = IPMI_URL @ ''/power_cycle'', req_params = params\<rparr>] \<and>
       requests (snd (power_reset bridge IPMI_URL self w)) =
         requests w @ [\<lparr>req_url = IPMI_URL @ ''/power_reset'', req_params = params\<rparr>] \<and>
       requests (snd (soft_shutdown bridge IPMI_URL self w)) =
         requests w @ [\<lparr>req_url = IPMI_URL @ ''/soft_shutdown'', req_params = params\<rparr>])"
proof -
  obtain r self' w' where t: "update_try bridge IPMI_URL self w = (r, self', w')"
    by (cases "update_try bridge IPMI_URL self w") auto
  have "requests (snd (snd (update bridge IPMI_URL self w))) =
          requests (snd (getJson bridge IPMI_URL self None w))"
    using update_of_try(3) [OF t] update_try_cases [OF t] by simp
  then have u: "requests (snd (snd (update bridge IPMI_URL self w))) =
      requests w @ [\<lparr>req_url = IPMI_URL,
        req_params = \<lparr>p_host = self_host self, p_port = self_port self,
                       p_user = self_username self, p_password = self_password self\<rparr>\<rparr>]"
    by (simp add: getJson_requests)
  have c: "requests (snd (power_on bridge IPMI_URL self w)) =
             requests (snd (getJson bridge IPMI_URL self (Some ''power_on'') w))"
    "requests (snd (power_off bridge IPMI_URL self w)) =
             requests (snd (getJson bridge IPMI_URL self (Some ''power_off'') w))"
    "requests (snd (power_cycle bridge IPMI_URL self w)) =
             requests (snd (getJson bridge IPMI_URL self (Some ''power_cycle'') w))"
    "requests (snd (power_reset bridge IPMI_URL self w)) =
             requests (snd (getJson bridge IPMI_URL self (Some ''power_reset'') w))"
    "requests (snd (soft_shutdown bridge IPMI_URL self w)) =
             requests (snd (getJson bridge IPMI_URL self (Some ''soft_shutdown'') w))"
    by (simp_all add: power_on_def power_off_def power_cycle_def power_reset_def
        soft_shutdown_def split: prod.splits sum.splits)
  show ?thesis
    unfolding Let_def u c getJson_requests by simp
qed

text \<open>
  C9. Whatever the HTTP call does, \<^verbatim>\<open>update\<close> and the five commands return normally:
  no exception reaches the caller. Every error ends in the log instead. An exception
  of the HTTP call, an answer that is no object or lacks the \<^verbatim>\<open>success\<close> flag, and
  any other exception of the \<^verbatim>\<open>try\<close> block of \<^verbatim>\<open>update\<close> add one entry with the
  host and the exception; an answer with a false flag adds its message; a command adds
  one entry with the host and the exception when its HTTP call raises, and none
  otherwise. The update changes nothing of the object but the stored snapshot and the
  commands change nothing of it, so the object serves the next call as it served this
  one.
\<close>

theorem operations_never_raise:
  "fst (update bridge IPMI_URL self w) = Inr () \<and>
   (\<exists>snapshot. fst (snd (update bridge IPMI_URL self w)) = self\<lparr>self_device_info := snapshot\<rparr>) \<and>
   fst (power_on bridge IPMI_URL self w) = Inr () \<and>
   fst (power_off bridge IPMI_URL self w) = Inr () \<and>
   fst (power_cycle bridge IPMI_URL self w) = Inr () \<and>
   fst (power_reset bridge IPMI_URL self w) = Inr () \<and>
   fst (soft_shutdown bridge IPMI_URL self w) = Inr () \<and>
   (fst (getJson bridge IPMI_URL self None w) = Inl err \<longrightarrow>
      errors (snd (snd (update bridge IPMI_URL self w))) =
        errors w @ [ErrorConnecting (self_host self) err]) \<and>
   (fst (getJson bridge IPMI_URL self None w) = Inr json \<and> getitem json ''success'' = Inl err \<longrightarrow>
      errors (snd (snd (update bridge IPMI_URL self w))) =
        errors w @ [ErrorConnecting (self_host self) err]) \<and>
   (fst (update_try bridge IPMI_URL self w) = Inl err \<longrightarrow>
      errors (snd (snd (update bridge IPMI_URL self w))) =
        errors w @ [ErrorConnecting (self_host self) err]) \<and>
   (fst (getJson bridge IPMI_URL self None w) = Inr json \<and>
    getitem json ''success'' = Inr success \<and> \<not> truthy success \<and>
    getitem json ''message'' = Inr message \<longrightarrow>
      errors (snd (snd (update bridge IPMI_URL self w))) = errors w @ [ErrorMessage message]) \<and>
   errors (snd (power_on bridge IPMI_URL self w)) =
     errors w @ (case fst (getJson bridge IPMI_URL self (Some ''power_on'') w) of
                   Inl err \<Rightarrow> [ErrorConnecting (self_host self) err] | Inr answer \<Rightarrow> []) \<and>
   errors (snd (power_off bridge IPMI_URL self w)) =
     errors w @ (case fst (getJson bridge IPMI_URL self (Some ''power_off'') w) of
                   Inl err \<Rightarrow> [ErrorConnecting (self_host self) err] | Inr answer \<Rightarrow> []) \<and>
   errors (snd (power_cycle bridge IPMI_URL self w)) =
     errors w @ (case fst (getJson bridge IPMI_URL self (Some ''power_cycle'') w) of
                   Inl err \<Rightarrow> [ErrorConnecting (self_host self) err] | Inr answer \<Rightarrow> []) \<and>
   errors (snd (power_reset bridge IPMI_URL self w)) =
     errors w @ (case fst (getJson bridge IPMI_URL self (Some ''power_reset'') w) of
                   Inl err \<Rightarrow> [ErrorConnecting (self_host self) err] | Inr answer \<Rightarrow> []) \<and>
   errors (snd (soft_shutdown bridge IPMI_URL self w)) =
     errors w @ (case fst (getJson bridge IPMI_URL self (Some ''soft_shutdown'') w) of
                   Inl err \<Rightarrow> [ErrorConnecting (self_host self) err] | Inr answer \<Rightarrow> [])"
proof -
  obtain r self' w' where t: "update_try bridge IPMI_URL self w = (r, self', w')"
    by (cases "update_try bridge IPMI_URL self w") auto
  have "self' = self\<lparr>self_device_info := self_device_info self\<rparr> \<or>
        (\<exists>i. self' = self\<lparr>self_device_info := Some i\<rparr>)"
    using update_try_cases [OF t] by auto
  then have e: "\<exists>snapshot. fst (snd (update bridge IPMI_URL self w)) =
                  self\<lparr>self_device_info := snapshot\<rparr>"
    unfolding update_of_try(2) [OF t] by blast
  have c: "fst (power_on bridge IPMI_URL self w) = Inr ()"
    "fst (power_off bridge IPMI_URL self w) = Inr ()"
    "fst (power_cycle bridge IPMI_URL self w) = Inr ()"
    "fst (power_reset bridge IPMI_URL self w) = Inr ()"
    "fst (soft_shutdown bridge IPMI_URL self w) = Inr ()"
    by (simp_all add: power_on_def power_off_def power_cycle_def power_reset_def
        soft_shutdown_def split: prod.splits sum.splits)
  have raised: "errors (snd (snd (update bridge IPMI_URL self w))) =
                  errors w @ [ErrorConnecting (self_host self) err]"
    if "fst (update_try bridge IPMI_URL self w) = Inl err" for err
    using that t update_try_cases [OF t] by (auto simp: update_def)
  have http: "fst (update_try bridge IPMI_URL self w) = Inl err"
    if "fst (getJson bridge IPMI_URL self None w) = Inl err" for err
    using that by (cases "getJson bridge IPMI_URL self None w") (simp add: update_try_def)
  have shape: "fst (update_try bridge IPMI_URL self w) = Inl err"
    if "fst (getJson bridge IPMI_URL self None w) = Inr json \<and> getitem json ''success'' = Inl err"
    for json err
    using that by (cases "getJson bridge IPMI_URL self None w") (simp add: update_try_def)
  have rejected: "errors (snd (snd (update bridge IPMI_URL self w))) =
                    errors w @ [ErrorMessage message]"
    if "fst (getJson bridge IPMI_URL self None w) = Inr json \<and>
        getitem json ''success'' = Inr success \<and> \<not> truthy success \<and>
        getitem json ''message'' = Inr message" for json success message
    using that getJson_errors [of bridge IPMI_URL self None w]
    by (cases "getJson bridge IPMI_URL self None w") (simp add: update_def update_try_def)
  have l: "errors (snd (power_on bridge IPMI_URL self w)) =
     errors w @ (case fst (getJson bridge IPMI_URL self (Some ''power_on'') w) of
                   Inl err \<Rightarrow> [ErrorConnecting (self_host self) err] | Inr answer \<Rightarrow> [])"
    "errors (snd (power_off bridge IPMI_URL self w)) =
     errors w @ (case fst (getJson bridge IPMI_URL self (Some ''power_off'') w) of
                   Inl err \<Rightarrow> [ErrorConnecting (self_host self) err] | Inr answer \<Rightarrow> [])"
    "errors (snd (power_cycle bridge IPMI_URL self w)) =
     errors w @ (case fst (getJson bridge IPMI_URL self (Some ''power_cycle'') w) of
                   Inl err \<Rightarrow> [ErrorConnecting (self_host self) err] | Inr answer \<Rightarrow> [])"
    "errors (snd (power_reset bridge IPMI_URL self w)) =
     errors w @ (case fst (getJson bridge IPMI_URL self (Some ''power_reset'') w) of
                   Inl err \<Rightarrow> [ErrorConnecting (self_host self) err] | Inr answer \<Rightarrow> [])"
    "errors (snd (soft_shutdown bridge IPMI_URL self w)) =
     errors w @ (case fst (getJson bridge IPMI_URL self (Some ''soft_shutdown'') w) of
                   Inl err \<Rightarrow> [ErrorConnecting (self_host self) err] | Inr answer \<Rightarrow> [])"
    by (simp_all add: power_on_def power_off_def power_cycle_def power_reset_def
        soft_shutdown_def getJson_def Let_def split: sum.splits)
  from update_of_try(1) [OF t] e c raised http shape rejected l show ?thesis
    by (intro conjI impI) (simp_all only:, blast+)
qed

theorem operations_never_raise_witness:
  "fst (update refused_bridge ''http://bridge'' rack3 world0) = Inr () \<and>
   errors (snd (snd (update refused_bridge ''http://bridge'' rack3 world0))) =
     [ErrorConnecting ''10.0.0.5'' (RequestException ''connection refused'')] \<and>
   fst (power_on refused_bridge ''http://bridge'' rack3 world0) = Inr () \<and>
   errors (snd (power_on refused_bridge ''http://bridge'' rack3 world0)) =
     [ErrorConnecting ''10.0.0.5'' (RequestException ''connection refused'')] \<and>
   errors (snd (soft_shutdown refused_bridge ''http://bridge'' rack3 world0)) =
     [ErrorConnecting ''10.0.0.5'' (RequestException ''connection refused'')] \<and>
   errors (snd (snd (update malformed_bridge ''http://bridge'' rack3 world0))) =
     [ErrorConnecting ''10.0.0.5'' TypeError] \<and>
   errors (snd (snd (update incomplete_bridge ''http://bridge'' rack3 world0))) =
     [ErrorConnecting ''10.0.0.5'' KeyError] \<and>
   errors (snd (snd (update auth_failed_bridge ''http://bridge'' rack3 world0))) =
     [ErrorMessage (JStr ''auth failed'')]"
proof -
  have r: "fst (getJson refused_bridge ''http://bridge'' rack3 path world0) =
             Inl (RequestException ''connection refused'')" for path
    by (simp add: getJson_def refused_bridge_def)
  have m: "fst (getJson malformed_bridge ''http://bridge'' rack3 None world0) = Inr (JArr []) \<and>
           getitem (JArr []) ''success'' = Inl TypeError"
    by (simp add: getJson_def malformed_bridge_def)
  have i: "fst (update_try incomplete_bridge ''http://bridge'' rack3 world0) = Inl KeyError"
    by (simp add: update_try_def getJson_def incomplete_bridge_def)
  have a: "fst (getJson auth_failed_bridge ''http://bridge'' rack3 None world0) =
             Inr (JObj [(''success'', JBool False), (''message'', JStr ''auth failed'')]) \<and>
           getitem (JObj [(''success'', JBool False), (''message'', JStr ''auth failed'')])
             ''success'' = Inr (JBool False) \<and> \<not> truthy (JBool False) \<and>
           getitem (JObj [(''success'', JBool False), (''message'', JStr ''auth failed'')])
             ''message'' = Inr (JStr ''auth failed'')"
    by (simp add: getJson_def auth_failed_bridge_def)
  have h: "self_host rack3 = ''10.0.0.5''" and w: "errors world0 = []"
    by (simp_all add: rack3_def PyIpmiData_init_def world0_def)
  from operations_never_raise
         [of refused_bridge "''http://bridge''" rack3 world0 "RequestException ''connection refused''"]
       operations_never_raise
         [of malformed_bridge "''http://bridge''" rack3 world0 TypeError "JArr []"]
       operations_never_raise
         [of incomplete_bridge "''http://bridge''" rack3 world0 KeyError]
       operations_never_raise
         [of auth_failed_bridge "''http://bridge''" rack3 world0 _
             "JObj [(''success'', JBool False), (''message'', JStr ''auth failed'')]"
             "JBool False" "JStr ''auth failed''"]
       r m i a h w
  show ?thesis by simp
qed

section \<open>Properties of identity derivation and setup\<close>

text \<open>
  C6, as claimed: with an alias present the identity is the manufacturer name, or the
  product name when the manufacturer name is absent, joined with the alias by an
  underscore. The code joins only the parts that are not empty: for a device whose
  manufacturer and product names are both empty the identity is the alias alone,
  without the separator.
\<close>

theorem identity_without_names_is_alias:
  "info_alias nameless_snapshot = Some ''rack3'' \<and>
   getitem (info_device nameless_snapshot) ''product_name'' = Inr (JStr []) \<and>
   unique_id_from_status nameless_snapshot = Inr (Some ''rack3'') \<and>
   unique_id_from_status nameless_snapshot \<noteq> Inr (Some ([] @ ''_'' @ ''rack3''))"
  by (simp add: unique_id_from_status_def nameless_snapshot_def opt_str_def)

text \<open>
  C6, amended. For a snapshot with a present alias whose device holds a manufacturer
  name and a product name, each a string or null: the identity is the manufacturer name
  joined with the alias by an underscore; when the manufacturer name is null or empty
  it is the product name joined with the alias; when the product name is null or empty
  too it is the alias alone.
\<close>

theorem identity_joins_name_and_alias:
  assumes "info_alias info = Some alias" and "alias \<noteq> []"
    and "getitem (info_device info) ''manufacturer_name'' = Inr manufacturer"
    and "manufacturer = JStr m \<or> manufacturer = JNull"
    and "getitem (info_device info) ''product_name'' = Inr product_name"
    and "product_name = JStr p \<or> product_name = JNull"
  shows "unique_id_from_status info =
           Inr (Some (if truthy manufacturer then m @ ''_'' @ alias
                      else if truthy product_name then p @ ''_'' @ alias
                      else alias))"
  using assms by (auto simp: unique_id_from_status_def opt_str_def)

theorem identity_joins_name_and_alias_witness:
  "unique_id_from_status acme_snapshot = Inr (Some ''Acme_rack3'') \<and>
   unique_id_from_status product_only_snapshot = Inr (Some ''X1_rack3'')"
  using identity_joins_name_and_alias
          [of acme_snapshot "''rack3''" "JStr ''Acme''" "''Acme''" "JStr ''X1''" "''X1''"]
        identity_joins_name_and_alias
          [of product_only_snapshot "''rack3''" JNull "[]" "JStr ''X1''" "''X1''"]
  by (simp add: acme_snapshot_def acme_device_def product_only_snapshot_def)

text \<open>
  C7. The identity is a function of the manufacturer name, the product name and the
  alias alone: two snapshots that agree on the three have the same identity, whatever
  their other fields hold. For a snapshot with an absent alias (\<^verbatim>\<open>None\<close> or the empty
  string) the result is the sentinel \<^verbatim>\<open>None\<close>, whatever the device holds.
\<close>

theorem identity_depends_on_names_and_alias:
  "(getitem (info_device a) ''manufacturer_name'' = getitem (info_device b) ''manufacturer_name'' \<and>
    getitem (info_device a) ''product_name'' = getitem (info_device b) ''product_name'' \<and>
    info_alias a = info_alias b \<longrightarrow> unique_id_from_status a = unique_id_from_status b) \<and>
   (info_alias a = None \<or> info_alias a = Some [] \<longrightarrow> unique_id_from_status a = Inr None)"
proof -
  have same: "unique_id_from_status a = unique_id_from_status b"
    if h: "getitem (info_device a) ''manufacturer_name'' =
             getitem (info_device b) ''manufacturer_name''"
      "getitem (info_device a) ''product_name'' = getitem (info_device b) ''product_name''"
      "info_alias a = info_alias b"
    unfolding unique_id_from_status_def h by (rule refl)
  have absent: "unique_id_from_status a = Inr None"
    if "info_alias a = None \<or> info_alias a = Some []"
    using that by (auto simp: unique_id_from_status_def opt_str_def)
  from same absent show ?thesis by blast
qed

theorem identity_depends_on_names_and_alias_witness:
  "unique_id_from_status
     (acme_snapshot\<lparr>info_power_on := JBool False,
                    info_sensors := JObj [(''fan1'', JStr ''4200 RPM'')]\<rparr>) =
     unique_id_from_status acme_snapshot \<and>
   unique_id_from_status (old_snapshot\<lparr>info_alias := None\<rparr>) = Inr None \<and>
   unique_id_from_status (acme_snapshot\<lparr>info_alias := Some []\<rparr>) = Inr None"
  using identity_depends_on_names_and_alias
          [of "acme_snapshot\<lparr>info_power_on := JBool False,
                 info_sensors := JObj [(''fan1'', JStr ''4200 RPM'')]\<rparr>" acme_snapshot]
        identity_depends_on_names_and_alias [of "old_snapshot\<lparr>info_alias := None\<rparr>" acme_snapshot]
        identity_depends_on_names_and_alias [of "acme_snapshot\<lparr>info_alias := Some []\<rparr>" acme_snapshot]
  by (simp add: acme_snapshot_def)

text \<open>
  A setup whose entry has no alias never completes, whatever the bridge answers and
  however long it takes: the first refresh fails, or the concatenation of the alias and
  the sentinel raises.
\<close>

lemma async_setup_entry_fails_without_alias:
  assumes "conf_alias entry = None \<or> conf_alias entry = Some []"
  shows "\<exists>e. fst (async_setup_entry timed_out bridge IPMI_URL entry w) = Inl e"
proof -
  let ?data = "PyIpmiData_init (conf_host entry) (conf_port entry) (conf_alias entry)
                   (conf_username entry) (conf_password entry)"
  obtain r data' w' where a: "async_update_data timed_out bridge IPMI_URL ?data w = (r, data', w')"
    by (cases "async_update_data timed_out bridge IPMI_URL ?data w") auto
  show ?thesis
  proof (cases r)
    case (Inl e)
    with a show ?thesis by (simp add: async_setup_entry_def Let_def)
  next
    case (Inr info)
    have "info_alias info = conf_alias entry"
      using a Inr
      by (auto simp: async_update_data_def update_def update_try_def getJson_def Let_def
          device_info_def PyIpmiData_init_def IpmiDeviceInfo0_def
          split: sum.splits if_splits option.splits)
    then have "unique_id_from_status info = Inr None"
      using assms by (auto simp: unique_id_from_status_def opt_str_def)
    moreover have "py_add (conf_alias entry) None = Inl TypeError"
      by (cases "conf_alias entry") simp_all
    ultimately show ?thesis
      using a Inr by (simp add: async_setup_entry_def Let_def)
  qed
qed

text \<open>
  C3. Claim: when the identity derivation returns the sentinel, the setup takes the id of
  the config entry as the unique id of the device and completes. The code does
  otherwise. For an entry without alias and a bridge that answers the first poll well,
  the derivation returns the sentinel and \<^verbatim>\<open>alias + _unique_id_from_status(deviceInfo)\<close>
  raises \<^verbatim>\<open>TypeError\<close>: the branch that would take \<^verbatim>\<open>entry.entry_id\<close> is never
  reached and the setup fails.
\<close>

theorem async_setup_entry_without_alias_raises:
  "unique_id_from_status (acme_snapshot\<lparr>info_alias := None\<rparr>) = Inr None \<and>
   async_setup_entry False acme_bridge ''http://bridge'' entry_without_alias world0 =
     (Inl TypeError,
      \<lparr>requests = [\<lparr>req_url = ''http://bridge'', req_params = rack3_params\<rparr>], errors = []\<rparr>)"
  by (simp add: async_setup_entry_def async_update_data_def update_def update_try_def
      getJson_def device_info_def acme_bridge_def acme_response_def acme_device_def
      acme_snapshot_def PyIpmiData_init_def unique_id_from_status_def opt_str_def
      IpmiDeviceInfo0_def world0_def rack3_params_def entry_without_alias_def)

section \<open>Properties of the device actions\<close>

lemma ACTION_TYPES_eq: "ACTION_TYPES = set INTEGRATION_SUPPORTED_COMMANDS"
  by (simp add: ACTION_TYPES_def INTEGRATION_SUPPORTED_COMMANDS_def replace_dot_def)

text \<open>
  The function behind the validation does not check the name. It fails without a
  request for a name that is no attribute of the poller, and it runs whatever method
  the name stands for, also the status poll for the name \<^verbatim>\<open>update\<close>: the fixed set
  of commands is the schema's matter.
\<close>

lemma call_of_unknown_attribute:
  assumes "conf_type config \<notin> set PyIpmiData_attributes"
    and "inherited (conf_type config) = None"
    and "get_entry_id_from_device_id h (conf_device_id config) = Inr (Some eid)"
    and "domain_data h eid = Some data"
  shows "async_call_action_from_config inherited bridge IPMI_URL h config w =
           (Inl AttributeError, h, w)"
proof -
  have c: "call_attribute inherited bridge IPMI_URL data (conf_type config) w =
             (Inl AttributeError, data, w)"
    using assms(1,2) by (auto simp: call_attribute_def PyIpmiData_attributes_def)
  have m: "h\<lparr>domain_data := (domain_data h)(eid \<mapsto> data)\<rparr> = h"
    using assms(4) by (simp add: map_upd_triv)
  show ?thesis
    using assms(3,4) by (simp add: async_call_action_from_config_def Let_def c m)
qed

lemma unvalidated_call_of_update:
  "fst (async_call_action_from_config no_inherited acme_bridge ''http://bridge''
          registered_hass (action ''update'') world0) = Inr () \<and>
   requests (snd (snd (async_call_action_from_config no_inherited acme_bridge ''http://bridge''
          registered_hass (action ''update'') world0))) =
     [\<lparr>req_url = ''http://bridge'', req_params = rack3_params\<rparr>]"
  by (simp add: async_call_action_from_config_def
      get_entry_id_from_device_id_def call_attribute_def update_def update_try_def getJson_def
      acme_bridge_def acme_response_def rack3_def PyIpmiData_init_def rack3_params_def
      world0_def registered_hass_def action_def)

text \<open>
  The dispatch of one of the five commands for a registered device reaches the poller
  and issues exactly one request, to the path of that name.
\<close>

lemma device_action_known_command:
  assumes "conf_type config \<in> set INTEGRATION_SUPPORTED_COMMANDS"
    and "get_entry_id_from_device_id h (conf_device_id config) = Inr (Some eid)"
    and "domain_data h eid = Some data"
  shows "fst (device_action inherited bridge IPMI_URL h config w) = Inr () \<and>
         requests (snd (snd (device_action inherited bridge IPMI_URL h config w))) =
           requests w @
             [\<lparr>req_url = IPMI_URL @ ''/'' @ conf_type config,
               req_params = \<lparr>p_host = self_host data, p_port = self_port data,
                              p_user = self_username data, p_password = self_password data\<rparr>\<rparr>]"
proof -
  have v: "ACTION_SCHEMA config = Inr config"
    using assms(1) by (simp add: ACTION_SCHEMA_def ACTION_TYPES_eq)
  have "conf_type config = ''power_on'' \<or> conf_type config = ''power_off'' \<or>
        conf_type config = ''power_cycle'' \<or> conf_type config = ''power_reset'' \<or>
        conf_type config = ''soft_shutdown''"
    using assms(1) by (auto simp: INTEGRATION_SUPPORTED_COMMANDS_def)
  then show ?thesis
    using assms(2,3)
    by (elim disjE)
       (simp_all add: device_action_def v async_call_action_from_config_def Let_def
          call_attribute_def power_on_def power_off_def power_cycle_def power_reset_def
          soft_shutdown_def getJson_def split: sum.splits)
qed

text \<open>
  C2. The dispatch of a request whose command name is outside the set of the five
  commands fails with the error of the validation, \<^verbatim>\<open>vol.Invalid\<close>, and issues no
  request: the requests made are those made before, and the host's state is
  unchanged. No call of the poller is tried.
\<close>

theorem unknown_command_rejected:
  assumes "conf_type config \<notin> set INTEGRATION_SUPPORTED_COMMANDS"
  shows "device_action inherited bridge IPMI_URL h config w = (Inl Invalid, h, w) \<and>
         requests (snd (snd (device_action inherited bridge IPMI_URL h config w))) = requests w"
  using assms by (simp add: device_action_def ACTION_SCHEMA_def ACTION_TYPES_eq)

theorem unknown_command_rejected_witness:
  "device_action no_inherited acme_bridge ''http://bridge'' registered_hass (action ''update'')
     world0 = (Inl Invalid, registered_hass, world0) \<and>
   device_action no_inherited acme_bridge ''http://bridge'' registered_hass (action ''launch'')
     world0 = (Inl Invalid, registered_hass, world0) \<and>
   requests (snd (snd (device_action no_inherited acme_bridge ''http://bridge'' registered_hass
     (action ''update'') world0))) = []"
proof -
  have u: "conf_type (action ''update'') \<notin> set INTEGRATION_SUPPORTED_COMMANDS"
    and l: "conf_type (action ''launch'') \<notin> set INTEGRATION_SUPPORTED_COMMANDS"
    by (simp_all add: action_def INTEGRATION_SUPPORTED_COMMANDS_def)
  from unknown_command_rejected [OF u, of no_inherited acme_bridge "''http://bridge''"
         registered_hass world0]
       unknown_command_rejected [OF l, of no_inherited acme_bridge "''http://bridge''"
         registered_hass world0]
  show ?thesis by (simp add: world0_def)
qed

end
